theory Spec2Isabelle
  imports Main
begin

section \<open>The video-call page (VideoCall, src/unnamed/part_001, lines 1-363)\<close>

text \<open>
  The component \<^verbatim>\<open>VideoCall\<close> is modelled as a state record and one function per
  handler of the source. Browser objects are kept as far as the handlers read or
  write them: a media track has its \<^verbatim>\<open>kind\<close>, its \<^verbatim>\<open>enabled\<close> flag and whether
  \<^verbatim>\<open>stop()\<close> has been called on it; the \<^verbatim>\<open>RTCPeerConnection\<close> only whether
  \<^verbatim>\<open>close()\<close> has been called; the signaling \<^verbatim>\<open>WebSocket\<close> its URL and its
  \<^verbatim>\<open>readyState\<close>. Payloads (SDP, ICE candidates) are opaque strings. Line numbers
  are those of the source file.
\<close>

type_synonym payload = string

datatype track_kind = Audio | Video

record media_track =
  kind :: track_kind
  enabled :: bool
  ended :: bool

datatype ready_state = CONNECTING | OPEN | CLOSING | CLOSED

record websocket =
  url :: string
  readyState :: ready_state

record peer_connection =
  pc_closed :: bool

record auth_user =
  user_id :: string
  user_role :: string

text \<open>
  The JSON objects the page writes to the signaling socket, by their \<^verbatim>\<open>type\<close> field,
  and the object it reads from it (\<^verbatim>\<open>JSON.parse(event.data)\<close>).
\<close>

datatype signal =
    Ready string
  | Offer payload
  | Answer payload
  | IceCandidate payload
  | Hangup

fun signal_type :: "signal \<Rightarrow> string" where
  "signal_type (Ready r) = ''ready''"
| "signal_type (Offer s) = ''offer''"
| "signal_type (Answer s) = ''answer''"
| "signal_type (IceCandidate c) = ''ice-candidate''"
| "signal_type Hangup = ''hangup''"

definition is_offer :: "signal \<Rightarrow> bool" where
  "is_offer m = (signal_type m = ''offer'')"

record incoming =
  msg_type :: string
  msg_sdp :: payload
  msg_candidate :: payload

datatype js_error = TypeError | InvalidStateError

text \<open>
  The state of a mounted component. \<^verbatim>\<open>user\<close>, \<^verbatim>\<open>sessionId\<close> and \<^verbatim>\<open>WS_URL\<close> are
  what \<^verbatim>\<open>useAuth\<close>, the query string and the environment give (\<^verbatim>\<open>searchParams.get\<close>
  returns null for an absent parameter). \<^verbatim>\<open>toast_info\<close> says whether the imported
  \<^verbatim>\<open>toast\<close> object of react-hot-toast has a method \<^verbatim>\<open>info\<close>; that package is not
  part of this repository, so both cases are kept. \<^verbatim>\<open>sent\<close> lists, in order, the
  messages handed to \<^verbatim>\<open>signalingSocket.current.send\<close> by calls that returned
  normally; \<^verbatim>\<open>timers\<close> the delays of the pending \<^verbatim>\<open>setTimeout(() => createOffer(), 500)\<close>
  calls; \<^verbatim>\<open>navigated\<close> counts the calls of \<^verbatim>\<open>navigate(-1)\<close>.
\<close>

record vc_state =
  user :: "auth_user option"
  sessionId :: "string option"
  WS_URL :: string
  toast_info :: bool
  localStream :: "media_track list option"
  remoteStream :: bool
  callStatus :: string
  isMuted :: bool
  isVideoOff :: bool
  peerConnection :: "peer_connection option"
  signalingSocket :: "websocket option"
  sent :: "signal list"
  timers :: "nat list"
  navigated :: nat

definition initial :: "auth_user option \<Rightarrow> string option \<Rightarrow> string \<Rightarrow> bool \<Rightarrow> vc_state" where
  "initial u sid ws_url ti =
     \<lparr> user = u, sessionId = sid, WS_URL = ws_url, toast_info = ti,
       localStream = None, remoteStream = False, callStatus = ''Connecting...'',
       isMuted = False, isVideoOff = False,
       peerConnection = None, signalingSocket = None,
       sent = [], timers = [], navigated = 0 \<rparr>"

text \<open>Line 39: \<^verbatim>\<open>const role = user?.role === 'farmer' ? 'farmer' : 'vet'\<close>.\<close>

definition role :: "auth_user option \<Rightarrow> string" where
  "role u = (case u of
               None \<Rightarrow> ''vet''
             | Some usr \<Rightarrow> if user_role usr = ''farmer'' then ''farmer'' else ''vet'')"

text \<open>
  \<^verbatim>\<open>signalingSocket.current.send(m)\<close>: a null reference raises TypeError, a socket still
  CONNECTING raises InvalidStateError, otherwise the call returns (the browser
  transmits the frame when the socket is OPEN and discards it when CLOSING or
  CLOSED).
\<close>

definition send :: "signal \<Rightarrow> vc_state \<Rightarrow> js_error + vc_state" where
  "send m st =
     (case signalingSocket st of
        None \<Rightarrow> Inl TypeError
      | Some ws \<Rightarrow>
          if readyState ws = CONNECTING then Inl InvalidStateError
          else Inr (st\<lparr>sent := sent st @ [m]\<rparr>))"

text \<open>
  Lines 76-122, \<^verbatim>\<open>initPeerConnection\<close>: a fresh connection; the handlers it installs
  are \<^verbatim>\<open>onicecandidate\<close>, \<^verbatim>\<open>ontrack\<close> and \<^verbatim>\<open>onconnectionstatechange\<close> below.
\<close>

definition initPeerConnection :: "vc_state \<Rightarrow> vc_state" where
  "initPeerConnection st = st\<lparr>peerConnection := Some \<lparr>pc_closed = False\<rparr>\<rparr>"

text \<open>
  Lines 104-111: the candidate is written only if it is non-null and the socket
  exists and is OPEN.
\<close>

definition onicecandidate :: "payload option \<Rightarrow> vc_state \<Rightarrow> vc_state" where
  "onicecandidate candidate st =
     (case candidate of
        None \<Rightarrow> st
      | Some c \<Rightarrow>
          (case signalingSocket st of
             None \<Rightarrow> st
           | Some ws \<Rightarrow>
               if readyState ws = OPEN
               then (case send (IceCandidate c) st of Inl e \<Rightarrow> st | Inr st' \<Rightarrow> st')
               else st))"

text \<open>
  Lines 94-101, \<^verbatim>\<open>ontrack\<close>: \<^verbatim>\<open>remoteStream\<close> is kept as whether it is set; the
  argument says whether \<^verbatim>\<open>event.streams[0]\<close> is there.
\<close>

definition ontrack :: "bool \<Rightarrow> vc_state \<Rightarrow> vc_state" where
  "ontrack has_stream st = st\<lparr>remoteStream := has_stream, callStatus := ''Connected''\<rparr>"

text \<open>Lines 114-121, \<^verbatim>\<open>onconnectionstatechange\<close>, by the connection state it reads.\<close>

definition onconnectionstatechange :: "string \<Rightarrow> vc_state \<Rightarrow> vc_state" where
  "onconnectionstatechange connectionState st =
     (if connectionState = ''connected'' then st\<lparr>callStatus := ''Connected''\<rparr>
      else if connectionState = ''disconnected'' then st\<lparr>callStatus := ''Disconnected''\<rparr>
      else st)"

text \<open>
  Lines 124-126: the URL of the signaling socket. A template literal prints null as
  \<^verbatim>\<open>null\<close>; \<^verbatim>\<open>user.id\<close> on a null user raises TypeError.
\<close>

definition wsUrl :: "vc_state \<Rightarrow> js_error + string" where
  "wsUrl st =
     (case user st of
        None \<Rightarrow> Inl TypeError
      | Some usr \<Rightarrow>
          Inr (WS_URL st @ ''/ws/signaling/''
               @ (case sessionId st of None \<Rightarrow> ''null'' | Some s \<Rightarrow> s)
               @ ''/'' @ user_id usr @ ''/'' @ role (user st)))"

definition connectSignaling :: "vc_state \<Rightarrow> js_error + vc_state" where
  "connectSignaling st =
     (case wsUrl st of
        Inl e \<Rightarrow> Inl e
      | Inr u \<Rightarrow> Inr (st\<lparr>signalingSocket := Some \<lparr>url = u, readyState = CONNECTING\<rparr>\<rparr>))"

text \<open>
  Lines 49-74, \<^verbatim>\<open>initializeCall\<close>, run once by the mount effect. The argument is the
  outcome of \<^verbatim>\<open>getUserMedia\<close>: the tracks of the stream, or None when it rejects. Any
  exception inside the \<^verbatim>\<open>try\<close> ends in the \<^verbatim>\<open>catch\<close>, which sets the status to Error.
\<close>

definition initializeCall :: "media_track list option \<Rightarrow> vc_state \<Rightarrow> vc_state" where
  "initializeCall media st =
     (case media of
        None \<Rightarrow> st\<lparr>callStatus := ''Error''\<rparr>
      | Some stream \<Rightarrow>
          (let st1 = initPeerConnection (st\<lparr>localStream := Some stream\<rparr>) in
           case connectSignaling st1 of
             Inl e \<Rightarrow> st1\<lparr>callStatus := ''Error''\<rparr>
           | Inr st2 \<Rightarrow> st2\<lparr>callStatus := ''Waiting for peer...''\<rparr>))"

text \<open>
  Lines 187-204, \<^verbatim>\<open>createOffer\<close>. The argument is what the browser's
  \<^verbatim>\<open>createOffer\<close>/\<^verbatim>\<open>setLocalDescription\<close> give: the offer, or None when one of them
  rejects. A null or closed peer connection, a rejection and a failing \<^verbatim>\<open>send\<close> all
  end in the \<^verbatim>\<open>catch\<close>, which only logs.
\<close>

definition createOffer :: "payload option \<Rightarrow> vc_state \<Rightarrow> vc_state" where
  "createOffer rtc st =
     (case peerConnection st of
        None \<Rightarrow> st
      | Some pc \<Rightarrow>
          (case (if pc_closed pc then None else rtc) of
             None \<Rightarrow> st
           | Some offer \<Rightarrow>
               (case send (Offer offer) st of Inl e \<Rightarrow> st | Inr st' \<Rightarrow> st')))"

text \<open>Lines 206-223, \<^verbatim>\<open>handleOffer\<close>: the same shape, answering.\<close>

definition handleOffer :: "payload \<Rightarrow> payload option \<Rightarrow> vc_state \<Rightarrow> vc_state" where
  "handleOffer offer rtc st =
     (case peerConnection st of
        None \<Rightarrow> st
      | Some pc \<Rightarrow>
          (case (if pc_closed pc then None else rtc) of
             None \<Rightarrow> st
           | Some answer \<Rightarrow>
               (case send (Answer answer) st of Inl e \<Rightarrow> st | Inr st' \<Rightarrow> st')))"

text \<open>
  Lines 225-239, \<^verbatim>\<open>handleAnswer\<close> and \<^verbatim>\<open>handleIceCandidate\<close>: they only call into the
  peer connection, inside a \<^verbatim>\<open>try\<close> whose \<^verbatim>\<open>catch\<close> logs; nothing the model keeps
  changes.
\<close>

definition handleAnswer :: "payload \<Rightarrow> vc_state \<Rightarrow> vc_state" where
  "handleAnswer answer st = st"

definition handleIceCandidate :: "payload \<Rightarrow> vc_state \<Rightarrow> vc_state" where
  "handleIceCandidate candidate st = st"

text \<open>
  Lines 273-283, \<^verbatim>\<open>cleanup\<close>. It reads \<^verbatim>\<open>localStream\<close>, a \<^verbatim>\<open>useState\<close> variable, so
  what it sees depends on the render whose closure is called. The mount effect
  (lines 41-47, dependency list \<^verbatim>\<open>[]\<close>) runs \<^verbatim>\<open>initializeCall\<close> of the first render,
  and with it \<^verbatim>\<open>connectSignaling\<close>, the \<^verbatim>\<open>onmessage\<close> handler,
  \<^verbatim>\<open>handleRemoteHangup\<close> and \<^verbatim>\<open>cleanup\<close> of the first render, in which
  \<^verbatim>\<open>localStream\<close> is the initial null of line 27; the same holds for the
  \<^verbatim>\<open>cleanup\<close> the effect returns for unmounting. The \<^verbatim>\<open>onClick\<close> handlers are those
  of the latest render and see the current value. The refs
  \<^verbatim>\<open>peerConnection.current\<close> and \<^verbatim>\<open>signalingSocket.current\<close> are shared by all renders.
\<close>

datatype render = MountRender | CurrentRender

definition localStream_in :: "render \<Rightarrow> vc_state \<Rightarrow> media_track list option" where
  "localStream_in r st = (case r of MountRender \<Rightarrow> None | CurrentRender \<Rightarrow> localStream st)"

definition stop :: "media_track \<Rightarrow> media_track" where
  "stop t = t\<lparr>ended := True\<rparr>"

definition ws_close :: "websocket \<Rightarrow> websocket" where
  "ws_close ws =
     (if readyState ws = CONNECTING \<or> readyState ws = OPEN
      then ws\<lparr>readyState := CLOSING\<rparr> else ws)"

definition cleanup :: "render \<Rightarrow> vc_state \<Rightarrow> vc_state" where
  "cleanup r st =
     (let st1 = (case localStream_in r st of
                   None \<Rightarrow> st
                 | Some stream \<Rightarrow> st\<lparr>localStream := Some (map stop stream)\<rparr>);
          st2 = (case peerConnection st1 of
                   None \<Rightarrow> st1
                 | Some pc \<Rightarrow> st1\<lparr>peerConnection := Some (pc\<lparr>pc_closed := True\<rparr>)\<rparr>)
      in case signalingSocket st2 of
           None \<Rightarrow> st2
         | Some ws \<Rightarrow> st2\<lparr>signalingSocket := Some (ws_close ws)\<rparr>)"

definition navigate_back :: "vc_state \<Rightarrow> vc_state" where
  "navigate_back st = st\<lparr>navigated := Suc (navigated st)\<rparr>"

text \<open>
  Lines 241-245, \<^verbatim>\<open>handleRemoteHangup\<close>, reached from the \<^verbatim>\<open>onmessage\<close> handler of
  the first render. If \<^verbatim>\<open>toast.info\<close> is not a function the call raises TypeError
  and the two statements after it do not run.
\<close>

definition handleRemoteHangup :: "vc_state \<Rightarrow> vc_state" where
  "handleRemoteHangup st =
     (if toast_info st then navigate_back (cleanup MountRender st) else st)"

text \<open>Lines 265-271, \<^verbatim>\<open>endCall\<close>, the \<^verbatim>\<open>onClick\<close> of the End Call button.\<close>

definition endCall :: "vc_state \<Rightarrow> vc_state" where
  "endCall st =
     (let st1 = (case signalingSocket st of
                   None \<Rightarrow> st
                 | Some ws \<Rightarrow>
                     if readyState ws = OPEN
                     then (case send Hangup st of Inl e \<Rightarrow> st | Inr st' \<Rightarrow> st')
                     else st)
      in navigate_back (cleanup CurrentRender st1))"

text \<open>Lines 247-263, \<^verbatim>\<open>toggleMute\<close> and \<^verbatim>\<open>toggleVideo\<close>, \<^verbatim>\<open>onClick\<close> handlers.\<close>

definition toggle :: "track_kind \<Rightarrow> media_track \<Rightarrow> media_track" where
  "toggle k t = (if kind t = k then t\<lparr>enabled := \<not> enabled t\<rparr> else t)"

definition toggleMute :: "vc_state \<Rightarrow> vc_state" where
  "toggleMute st =
     (case localStream st of
        None \<Rightarrow> st
      | Some stream \<Rightarrow>
          st\<lparr>localStream := Some (map (toggle Audio) stream), isMuted := \<not> isMuted st\<rparr>)"

definition toggleVideo :: "vc_state \<Rightarrow> vc_state" where
  "toggleVideo st =
     (case localStream st of
        None \<Rightarrow> st
      | Some stream \<Rightarrow>
          st\<lparr>localStream := Some (map (toggle Video) stream), isVideoOff := \<not> isVideoOff st\<rparr>)"

text \<open>
  Lines 128-141, \<^verbatim>\<open>onopen\<close>. The browser calls it when the socket goes from
  CONNECTING to OPEN.
\<close>

definition onopen :: "vc_state \<Rightarrow> vc_state" where
  "onopen st =
     (case send (Ready (role (user st))) st of
        Inl e \<Rightarrow> st
      | Inr st1 \<Rightarrow>
          if role (user st) = ''farmer'' then st1\<lparr>timers := timers st1 @ [500]\<rparr> else st1)"

text \<open>
  Lines 143-175, \<^verbatim>\<open>onmessage\<close>: the \<^verbatim>\<open>switch\<close> on \<^verbatim>\<open>data.type\<close>, in the order of the
  source. The second argument is the outcome of the WebRTC calls a case may make.
\<close>

definition onmessage :: "incoming \<Rightarrow> payload option \<Rightarrow> vc_state \<Rightarrow> vc_state" where
  "onmessage data rtc st =
     (if msg_type data = ''ready'' then
        (if role (user st) = ''farmer'' then createOffer rtc st else st)
      else if msg_type data = ''offer'' then handleOffer (msg_sdp data) rtc st
      else if msg_type data = ''answer'' then handleAnswer (msg_sdp data) st
      else if msg_type data = ''ice-candidate'' then handleIceCandidate (msg_candidate data) st
      else if msg_type data = ''hangup'' then handleRemoteHangup st
      else if msg_type data = ''peer-disconnected'' then st\<lparr>callStatus := ''Peer disconnected''\<rparr>
      else st)"

text \<open>Lines 177-184: \<^verbatim>\<open>onerror\<close> shows a toast, \<^verbatim>\<open>onclose\<close> writes a log line.\<close>

definition onerror :: "vc_state \<Rightarrow> vc_state" where
  "onerror st = st"

definition onclose :: "vc_state \<Rightarrow> vc_state" where
  "onclose st = st"

subsection \<open>Runs of the page\<close>

text \<open>
  What can happen to a mounted page, each event with what the browser supplies. The
  browser moves \<^verbatim>\<open>readyState\<close> to OPEN before it calls \<^verbatim>\<open>onopen\<close> (which it does
  only for a socket that is CONNECTING) and to CLOSED before \<^verbatim>\<open>onclose\<close>; the other
  socket events need a socket to exist. A timer event runs the oldest pending
  \<^verbatim>\<open>createOffer\<close> timeout.
\<close>

datatype event =
    Mount "media_track list option"
  | SocketOpen
  | SocketMessage incoming "payload option"
  | SocketError
  | SocketClose
  | TimerFired "payload option"
  | IceEvent "payload option"
  | TrackEvent bool
  | ConnectionStateChange string
  | ClickMute
  | ClickVideo
  | ClickEndCall
  | Unmount

definition set_readyState :: "ready_state \<Rightarrow> vc_state \<Rightarrow> vc_state" where
  "set_readyState rs st =
     st\<lparr>signalingSocket := map_option (\<lambda>ws. ws\<lparr>readyState := rs\<rparr>) (signalingSocket st)\<rparr>"

fun step :: "vc_state \<Rightarrow> event \<Rightarrow> vc_state" where
  "step st (Mount media) = initializeCall media st"
| "step st SocketOpen =
     (case signalingSocket st of
        None \<Rightarrow> st
      | Some ws \<Rightarrow> if readyState ws = CONNECTING then onopen (set_readyState OPEN st) else st)"
| "step st (SocketMessage data rtc) =
     (case signalingSocket st of None \<Rightarrow> st | Some ws \<Rightarrow> onmessage data rtc st)"
| "step st SocketError =
     (case signalingSocket st of None \<Rightarrow> st | Some ws \<Rightarrow> onerror st)"
| "step st SocketClose =
     (case signalingSocket st of None \<Rightarrow> st | Some ws \<Rightarrow> onclose (set_readyState CLOSED st))"
| "step st (TimerFired rtc) =
     (case timers st of [] \<Rightarrow> st | d # ds \<Rightarrow> createOffer rtc (st\<lparr>timers := ds\<rparr>))"
| "step st (IceEvent candidate) = onicecandidate candidate st"
| "step st (TrackEvent has_stream) = ontrack has_stream st"
| "step st (ConnectionStateChange cs) = onconnectionstatechange cs st"
| "step st ClickMute = toggleMute st"
| "step st ClickVideo = toggleVideo st"
| "step st ClickEndCall = endCall st"
| "step st Unmount = cleanup MountRender st"

definition run :: "vc_state \<Rightarrow> event list \<Rightarrow> vc_state" where
  "run st evs = foldl step st evs"

section \<open>The dashboards (FarmerDashboard, src/unnamed/part_001; VetDashboard, src/frontend/src/App.js)\<close>

text \<open>
  The calls of the dashboards to the REST API, as the method, the path and the
  fields of the JSON body. Identifiers are strings.
\<close>

datatype json = JNull | JString string

datatype http_method = GET | POST | PATCH

record api_request =
  http_method :: http_method
  path :: string
  body :: "(string \<times> json) list"

definition field :: "api_request \<Rightarrow> string \<Rightarrow> json option" where
  "field r k = map_of (body r) k"

text \<open>
  FarmerDashboard, lines 427-446, \<^verbatim>\<open>handleConnectVet(reportId)\<close>: the requests it issues. With a null
  user \<^verbatim>\<open>user.id\<close> raises inside the \<^verbatim>\<open>try\<close> before \<^verbatim>\<open>api.post\<close> is called.
\<close>

definition handleConnectVet :: "auth_user option \<Rightarrow> string \<Rightarrow> api_request list" where
  "handleConnectVet u reportId =
     (case u of
        None \<Rightarrow> []
      | Some usr \<Rightarrow>
          [\<lparr> http_method = POST, path = ''/signaling/session/create'',
             body = [(''report_id'', JString reportId),
                     (''farmer_id'', JString (user_id usr)),
                     (''vet_id'', JNull)] \<rparr>])"

text \<open>
  VetDashboard, lines 287-301 and 278-285: \<^verbatim>\<open>joinCall(sessionId, reportId)\<close> and
  \<^verbatim>\<open>loadActiveSessions()\<close>.
\<close>

definition joinCall :: "auth_user option \<Rightarrow> string \<Rightarrow> string \<Rightarrow> api_request list" where
  "joinCall u session_id reportId =
     (case u of
        None \<Rightarrow> []
      | Some usr \<Rightarrow>
          [\<lparr> http_method = PATCH, path = ''/signaling/session/'' @ session_id @ ''/join'',
             body = [(''vet_id'', JString (user_id usr))] \<rparr>])"

definition loadActiveSessions :: "api_request list" where
  "loadActiveSessions =
     [\<lparr> http_method = GET, path = ''/signaling/sessions/active'', body = [] \<rparr>]"

text \<open>
  VetDashboard, lines 233-276, the notification socket: \<^verbatim>\<open>connectWebSocket\<close> opens a socket to
  \<^verbatim>\<open>${WS_URL}/ws/${user.id}\<close>, and its \<^verbatim>\<open>onclose\<close> handler is
  \<^verbatim>\<open>setTimeout(connectWebSocket, 3000)\<close>. The state keeps the sockets opened so far,
  the delays of the pending timeouts, and every delay ever passed to \<^verbatim>\<open>setTimeout\<close>.
\<close>

record vet_state =
  vd_user :: auth_user
  vd_WS_URL :: string
  vd_sockets :: "websocket list"
  vd_timers :: "nat list"
  vd_scheduled :: "nat list"

definition connectWebSocket :: "vet_state \<Rightarrow> vet_state" where
  "connectWebSocket st =
     st\<lparr>vd_sockets := vd_sockets st @
          [\<lparr>url = vd_WS_URL st @ ''/ws/'' @ user_id (vd_user st), readyState = CONNECTING\<rparr>]\<rparr>"

definition vd_onclose :: "vet_state \<Rightarrow> vet_state" where
  "vd_onclose st =
     st\<lparr>vd_timers := vd_timers st @ [3000], vd_scheduled := vd_scheduled st @ [3000]\<rparr>"

text \<open>
  The events of the notification socket: the mount effect, the \<open>i\<close>-th socket opening
  or closing (a socket closes once), and the oldest pending timeout firing.
\<close>

datatype vd_event = VdMount | VdOpen nat | VdClose nat | VdTimerFired

fun vd_step :: "vet_state \<Rightarrow> vd_event \<Rightarrow> vet_state" where
  "vd_step st VdMount = connectWebSocket st"
| "vd_step st (VdOpen i) =
     (if i < length (vd_sockets st) \<and> readyState (vd_sockets st ! i) = CONNECTING
      then st\<lparr>vd_sockets := (vd_sockets st)[i := (vd_sockets st ! i)\<lparr>readyState := OPEN\<rparr>]\<rparr>
      else st)"
| "vd_step st (VdClose i) =
     (if i < length (vd_sockets st) \<and> readyState (vd_sockets st ! i) \<noteq> CLOSED
      then vd_onclose
             (st\<lparr>vd_sockets := (vd_sockets st)[i := (vd_sockets st ! i)\<lparr>readyState := CLOSED\<rparr>]\<rparr>)
      else st)"
| "vd_step st VdTimerFired =
     (case vd_timers st of [] \<Rightarrow> st | d # ds \<Rightarrow> connectWebSocket (st\<lparr>vd_timers := ds\<rparr>))"

definition vd_run :: "vet_state \<Rightarrow> vd_event list \<Rightarrow> vet_state" where
  "vd_run st evs = foldl vd_step st evs"

definition vd_initial :: "auth_user \<Rightarrow> string \<Rightarrow> vet_state" where
  "vd_initial u ws_url =
     \<lparr> vd_user = u, vd_WS_URL = ws_url, vd_sockets = [], vd_timers = [], vd_scheduled = [] \<rparr>"

text \<open>
  Backoff, as a property of the successive delays of one connection: each delay is
  larger than the one before. Exponential growth is a special case.
\<close>

definition increasing_delays :: "nat list \<Rightarrow> bool" where
  "increasing_delays ds = sorted_wrt (<) ds"

section \<open>The session core (backend, api/signaling.py and api/websocket.py)\<close>

text \<open>
  The backend that stores call sessions and relays the signaling messages is not
  among the source files; only its callers above are. Its data and its operations
  are written here from sections 3, 4 and 7 of the specification. Time is a
  parameter of the operations that record it; a deferred action (the
  abandoned-session timeout, the grace window after a disconnect) is a pending flag
  that the qualifying event clears and that the expiry event consumes.
\<close>

text \<open>
  Modelled from the spec: the three values of \<^verbatim>\<open>CallSession.state\<close> (section 3); the
  session record is not among the source files.
\<close>

datatype session_state = Created | Active | Ended

text \<open>
  Modelled from the spec: the two roles of a \<^verbatim>\<open>ParticipantConnection\<close> (section 3),
  not among the source files.
\<close>

datatype core_role = Initiator | Counterpart

text \<open>
  Modelled from the spec: the error taxonomy of section 7, not among the source
  files (\<^verbatim>\<open>PeerAbsent\<close> is a logged no-op there, not an error value).
\<close>

datatype core_error = NotFound | AlreadyJoined | SessionEnded

text \<open>
  Modelled from the spec: the tagged variant \<^verbatim>\<open>SignalMessage\<close> of section 3, not among
  the source files.
\<close>

datatype signal_message =
    MReady
  | MOffer payload
  | MAnswer payload
  | MIceCandidate payload
  | MHangup

text \<open>
  Modelled from the spec: what the core writes to a channel (section 6): a relayed
  message, the peer-disconnected notice or the terminal notice; not among the source
  files.
\<close>

datatype notice = Forward signal_message | PeerDisconnected | Terminal

text \<open>
  Modelled from the spec: the record \<^verbatim>\<open>CallSession\<close> of section 3, not among the
  source files.
\<close>

record call_session =
  cs_id :: nat
  cs_reportId :: string
  cs_initiatorId :: string
  cs_counterpartId :: "string option"
  cs_state :: session_state
  cs_createdAt :: nat
  cs_endedAt :: "nat option"

text \<open>
  Modelled from the spec: the record \<^verbatim>\<open>ParticipantConnection\<close> of section 3, not among
  the source files; its session and role are the key it is stored under.
\<close>

record participant_connection =
  conn_participantId :: string
  conn_channel :: nat

text \<open>
  Modelled from the spec: the shared state of section 5, not among the source files:
  the Session Store, the id to allocate next, the Presence Registry, the two kinds
  of pending deferred action, the channels closed by force and the notices written.
\<close>

record core =
  store :: "nat \<Rightarrow> call_session option"
  next_id :: nat
  presence :: "nat \<times> core_role \<Rightarrow> participant_connection option"
  abandon_pending :: "nat \<Rightarrow> bool"
  grace_pending :: "nat \<times> core_role \<Rightarrow> bool"
  closed_channels :: "nat list"
  outbox :: "(nat \<times> notice) list"

text \<open>
  Modelled from the spec: the core before any operation, not among the source files.
\<close>

definition empty_core :: core where
  "empty_core =
     \<lparr> store = (\<lambda>sid. None), next_id = 0, presence = (\<lambda>k. None),
       abandon_pending = (\<lambda>sid. False), grace_pending = (\<lambda>k. False),
       closed_channels = [], outbox = [] \<rparr>"

text \<open>
  Modelled from the spec: the order of the states, Created, then Active, then Ended
  (sections 3 and 4.4); the state machine is not among the source files.
\<close>

fun rank :: "session_state \<Rightarrow> nat" where
  "rank Created = 0"
| "rank Active = 1"
| "rank Ended = 2"

text \<open>
  Modelled from the spec: the other role of a session (section 4.2, \<^verbatim>\<open>peerOf\<close>), not
  among the source files.
\<close>

fun other :: "core_role \<Rightarrow> core_role" where
  "other Initiator = Counterpart"
| "other Counterpart = Initiator"

text \<open>
  Modelled from the spec: \<^verbatim>\<open>attach\<close> of the Presence Registry (section 4.2), not among
  the source files. Attaching over an existing entry closes the prior channel first.
\<close>

definition attach :: "nat \<Rightarrow> string \<Rightarrow> core_role \<Rightarrow> nat \<Rightarrow> core \<Rightarrow> core" where
  "attach sid pid r ch c =
     (let c1 = (case presence c (sid, r) of
                  None \<Rightarrow> c
                | Some prior \<Rightarrow> c\<lparr>closed_channels := closed_channels c @ [conn_channel prior]\<rparr>)
      in c1\<lparr>presence := (presence c1)((sid, r) := Some \<lparr>conn_participantId = pid, conn_channel = ch\<rparr>)\<rparr>)"

text \<open>
  Modelled from the spec: \<^verbatim>\<open>detach\<close> of the Presence Registry (section 4.2), not among
  the source files; a no-op on an absent entry.
\<close>

definition detach :: "nat \<Rightarrow> core_role \<Rightarrow> core \<Rightarrow> core" where
  "detach sid r c = c\<lparr>presence := (presence c)((sid, r) := None)\<rparr>"

text \<open>
  Modelled from the spec: \<^verbatim>\<open>peerOf\<close> of the Presence Registry (section 4.2), not among
  the source files: the channel of the other role, if it is connected.
\<close>

definition peerOf :: "nat \<Rightarrow> core_role \<Rightarrow> core \<Rightarrow> nat option" where
  "peerOf sid r c = map_option conn_channel (presence c (sid, other r))"

text \<open>
  Modelled from the spec: \<^verbatim>\<open>bothPresent\<close> of the Presence Registry (section 4.2), not
  among the source files.
\<close>

definition bothPresent :: "nat \<Rightarrow> core \<Rightarrow> bool" where
  "bothPresent sid c =
     (presence c (sid, Initiator) \<noteq> None \<and> presence c (sid, Counterpart) \<noteq> None)"

text \<open>
  Modelled from the spec: writing a notice to a channel if there is one (section 6,
  outbound notifications), not among the source files.
\<close>

definition write_to :: "nat option \<Rightarrow> notice \<Rightarrow> core \<Rightarrow> core" where
  "write_to ch n c = (case ch of None \<Rightarrow> c | Some k \<Rightarrow> c\<lparr>outbox := outbox c @ [(k, n)]\<rparr>)"

text \<open>
  Modelled from the spec: \<^verbatim>\<open>create\<close> of the Session Store (section 4.1), not among the
  source files. It allocates a fresh id, always succeeds, and starts the
  abandoned-session wait.
\<close>

definition create :: "nat \<Rightarrow> string \<Rightarrow> string \<Rightarrow> core \<Rightarrow> call_session \<times> core" where
  "create now report initiator c =
     (let s = \<lparr> cs_id = next_id c, cs_reportId = report, cs_initiatorId = initiator,
                cs_counterpartId = None, cs_state = Created,
                cs_createdAt = now, cs_endedAt = None \<rparr>
      in (s, c\<lparr>store := (store c)(next_id c := Some s),
               next_id := Suc (next_id c),
               abandon_pending := (abandon_pending c)(next_id c := True)\<rparr>))"

text \<open>
  Modelled from the spec: \<^verbatim>\<open>get\<close> of the Session Store (section 4.1), not among the
  source files.
\<close>

definition get :: "nat \<Rightarrow> core \<Rightarrow> core_error + call_session" where
  "get sid c = (case store c sid of None \<Rightarrow> Inl NotFound | Some s \<Rightarrow> Inr s)"

text \<open>
  Modelled from the spec: \<^verbatim>\<open>join\<close> of the Session Store (section 4.1), not among the
  source files. It only records the identity; as a mutating operation it is refused
  on a terminal session (section 7).
\<close>

definition join :: "nat \<Rightarrow> string \<Rightarrow> core \<Rightarrow> (core_error + call_session) \<times> core" where
  "join sid counterpart c =
     (case store c sid of
        None \<Rightarrow> (Inl NotFound, c)
      | Some s \<Rightarrow>
          if cs_counterpartId s \<noteq> None \<and> cs_counterpartId s \<noteq> Some counterpart
          then (Inl AlreadyJoined, c)
          else if cs_state s = Ended then (Inl SessionEnded, c)
          else (let s' = s\<lparr>cs_counterpartId := Some counterpart\<rparr>
                in (Inr s', c\<lparr>store := (store c)(sid := Some s'),
                             abandon_pending := (abandon_pending c)(sid := False)\<rparr>)))"

text \<open>
  Modelled from the spec: \<^verbatim>\<open>end\<close> of sections 4.1 and 4.4, not among the source
  files. On a session that is not yet Ended it records \<^verbatim>\<open>endedAt\<close>, detaches both
  registry entries, writes a terminal notice to every peer that was still connected
  and cancels the deferred actions of the session; on an Ended session it returns
  the current record.
\<close>

definition end_session :: "nat \<Rightarrow> nat \<Rightarrow> core \<Rightarrow> (core_error + call_session) \<times> core" where
  "end_session sid now c =
     (case store c sid of
        None \<Rightarrow> (Inl NotFound, c)
      | Some s \<Rightarrow>
          if cs_state s = Ended then (Inr s, c)
          else (let s' = s\<lparr>cs_state := Ended, cs_endedAt := Some now\<rparr>;
                    chi = map_option conn_channel (presence c (sid, Initiator));
                    chc = map_option conn_channel (presence c (sid, Counterpart));
                    c1 = detach sid Counterpart (detach sid Initiator c);
                    c2 = write_to chc Terminal (write_to chi Terminal c1)
                in (Inr s',
                    c2\<lparr>store := (store c2)(sid := Some s'),
                       abandon_pending := (abandon_pending c2)(sid := False),
                       grace_pending := (grace_pending c2)
                          ((sid, Initiator) := False, (sid, Counterpart) := False)\<rparr>)))"

text \<open>
  Modelled from the spec: \<^verbatim>\<open>onConnect\<close> of the Lifecycle Coordinator (section 4.4),
  not among the source files. It attaches, cancels the grace window of the role, and
  makes the session Active once both roles are present.
\<close>

definition onConnect ::
  "nat \<Rightarrow> string \<Rightarrow> core_role \<Rightarrow> nat \<Rightarrow> core \<Rightarrow> (core_error + call_session) \<times> core" where
  "onConnect sid pid r ch c =
     (case store c sid of
        None \<Rightarrow> (Inl NotFound, c)
      | Some s \<Rightarrow>
          if cs_state s = Ended then (Inl SessionEnded, c)
          else (let c1 = attach sid pid r ch c;
                    c2 = c1\<lparr>grace_pending := (grace_pending c1)((sid, r) := False)\<rparr>;
                    s' = (if bothPresent sid c2 then s\<lparr>cs_state := Active\<rparr> else s)
                in (Inr s', c2\<lparr>store := (store c2)(sid := Some s')\<rparr>)))"

text \<open>
  Modelled from the spec: \<^verbatim>\<open>onDisconnect\<close> of the Lifecycle Coordinator (section
  4.4), not among the source files. It detaches, notifies the remaining peer and
  starts the grace window; it does not end the session.
\<close>

definition onDisconnect :: "nat \<Rightarrow> core_role \<Rightarrow> core \<Rightarrow> core" where
  "onDisconnect sid r c =
     (let c1 = detach sid r c;
          c2 = write_to (peerOf sid r c1) PeerDisconnected c1
      in c2\<lparr>grace_pending := (grace_pending c2)((sid, r) := True)\<rparr>)"

text \<open>
  Modelled from the spec: \<^verbatim>\<open>relay\<close> of the Signaling Relay (section 4.3), not among
  the source files. A message is forwarded to the peer if present and dropped
  otherwise; a hangup then ends the session; a session without record or already
  Ended gives an error (section 4.4 and scenario 4 of section 8).
\<close>

definition relay ::
  "nat \<Rightarrow> core_role \<Rightarrow> signal_message \<Rightarrow> nat \<Rightarrow> core \<Rightarrow> (core_error + unit) \<times> core" where
  "relay sid r m now c =
     (case store c sid of
        None \<Rightarrow> (Inl NotFound, c)
      | Some s \<Rightarrow>
          if cs_state s = Ended then (Inl SessionEnded, c)
          else (let c1 = write_to (peerOf sid r c) (Forward m) c
                in if m = MHangup then (Inr (), snd (end_session sid now c1))
                   else (Inr (), c1)))"

text \<open>
  Modelled from the spec: the expiry of the abandoned-session timeout (sections 4.4
  and 5), not among the source files; it ends the session unless a join has
  cancelled it.
\<close>

definition abandon_timeout :: "nat \<Rightarrow> nat \<Rightarrow> core \<Rightarrow> core" where
  "abandon_timeout sid now c =
     (if abandon_pending c sid then snd (end_session sid now c) else c)"

text \<open>
  Modelled from the spec: the expiry of the grace window of a role (sections 4.4
  and 5), not among the source files; it ends the session unless a reconnect has
  cancelled it.
\<close>

definition grace_expired :: "nat \<Rightarrow> core_role \<Rightarrow> nat \<Rightarrow> core \<Rightarrow> core" where
  "grace_expired sid r now c =
     (if grace_pending c (sid, r) then snd (end_session sid now c) else c)"

text \<open>
  Modelled from the spec: the operations of sections 4 and 6 as events (create,
  join, connect, disconnect, relay of a message, hangup being one, end, and the two
  expiries), not among the source files. The last argument of an event that can end
  a session is the time.
\<close>

datatype core_event =
    EvCreate nat string string
  | EvJoin nat string
  | EvConnect nat string core_role nat
  | EvDisconnect nat core_role
  | EvRelay nat core_role signal_message nat
  | EvEnd nat nat
  | EvAbandonTimeout nat nat
  | EvGraceExpired nat core_role nat

text \<open>
  Modelled from the spec: one event applied to the core (section 5: each event is
  processed to completion), not among the source files; an error leaves the core as
  it was.
\<close>

fun core_step :: "core \<Rightarrow> core_event \<Rightarrow> core" where
  "core_step c (EvCreate now report initiator) = snd (create now report initiator c)"
| "core_step c (EvJoin sid counterpart) = snd (join sid counterpart c)"
| "core_step c (EvConnect sid pid r ch) = snd (onConnect sid pid r ch c)"
| "core_step c (EvDisconnect sid r) = onDisconnect sid r c"
| "core_step c (EvRelay sid r m now) = snd (relay sid r m now c)"
| "core_step c (EvEnd sid now) = snd (end_session sid now c)"
| "core_step c (EvAbandonTimeout sid now) = abandon_timeout sid now c"
| "core_step c (EvGraceExpired sid r now) = grace_expired sid r now c"

text \<open>
  Modelled from the spec: a sequence of events applied in order, not among the
  source files.
\<close>

definition core_run :: "core \<Rightarrow> core_event list \<Rightarrow> core" where
  "core_run c evs = foldl core_step c evs"

text \<open>
  Modelled from the spec: ids are allocated fresh (section 4.1), so every stored
  session has an id below the next one to be allocated; not among the source files.
\<close>

definition fresh_ids :: "core \<Rightarrow> bool" where
  "fresh_ids c = (\<forall>sid. store c sid \<noteq> None \<longrightarrow> sid < next_id c)"

section \<open>Properties of the video-call page\<close>

subsection \<open>What a handler leaves alone\<close>

lemma send_sent: "send m st = Inr st' \<Longrightarrow> st' = st\<lparr>sent := sent st @ [m]\<rparr>"
  by (auto simp: send_def split: option.splits if_splits)

lemma cleanup_keeps:
  "user (cleanup r st) = user st \<and> timers (cleanup r st) = timers st \<and>
   sent (cleanup r st) = sent st"
  by (simp add: cleanup_def Let_def split: option.splits)

lemma handleOffer_keeps:
  "user (handleOffer offer rtc st) = user st \<and>
   timers (handleOffer offer rtc st) = timers st \<and>
   filter is_offer (sent (handleOffer offer rtc st)) = filter is_offer (sent st)"
  by (auto simp: handleOffer_def is_offer_def split: option.splits sum.splits dest!: send_sent)

lemma handleRemoteHangup_keeps:
  "user (handleRemoteHangup st) = user st \<and>
   timers (handleRemoteHangup st) = timers st \<and>
   sent (handleRemoteHangup st) = sent st"
  by (simp add: handleRemoteHangup_def navigate_back_def cleanup_keeps)

lemma onmessage_keeps:
  assumes "role (user st) \<noteq> ''farmer''"
  shows "user (onmessage data rtc st) = user st \<and>
         timers (onmessage data rtc st) = timers st \<and>
         filter is_offer (sent (onmessage data rtc st)) = filter is_offer (sent st)"
  using assms
  by (simp add: onmessage_def handleOffer_keeps handleRemoteHangup_keeps
        handleAnswer_def handleIceCandidate_def)

lemma onopen_keeps:
  assumes "role (user st) \<noteq> ''farmer''"
  shows "user (onopen st) = user st \<and>
         timers (onopen st) = timers st \<and>
         filter is_offer (sent (onopen st)) = filter is_offer (sent st)"
  using assms
  by (auto simp: onopen_def is_offer_def split: sum.splits dest!: send_sent)

lemma initializeCall_keeps:
  "user (initializeCall media st) = user st \<and>
   timers (initializeCall media st) = timers st \<and>
   sent (initializeCall media st) = sent st"
  by (auto simp: initializeCall_def initPeerConnection_def connectSignaling_def Let_def
           split: option.splits sum.splits)

lemma onicecandidate_keeps:
  "user (onicecandidate cand st) = user st \<and>
   timers (onicecandidate cand st) = timers st \<and>
   filter is_offer (sent (onicecandidate cand st)) = filter is_offer (sent st)"
  by (auto simp: onicecandidate_def is_offer_def split: option.splits sum.splits dest!: send_sent)

lemma endCall_keeps:
  "user (endCall st) = user st \<and>
   timers (endCall st) = timers st \<and>
   filter is_offer (sent (endCall st)) = filter is_offer (sent st)"
  by (auto simp: endCall_def Let_def navigate_back_def cleanup_keeps is_offer_def
           split: option.splits sum.splits dest!: send_sent)

lemma toggle_keeps:
  "user (toggleMute st) = user st \<and> timers (toggleMute st) = timers st \<and>
   sent (toggleMute st) = sent st \<and>
   user (toggleVideo st) = user st \<and> timers (toggleVideo st) = timers st \<and>
   sent (toggleVideo st) = sent st"
  by (simp add: toggleMute_def toggleVideo_def split: option.splits)

lemma set_readyState_keeps:
  "user (set_readyState rs st) = user st \<and> timers (set_readyState rs st) = timers st \<and>
   sent (set_readyState rs st) = sent st"
  by (simp add: set_readyState_def)

text \<open>
  A page whose role is not farmer and that has no \<^verbatim>\<open>createOffer\<close> timeout pending
  stays so under every event, and the event adds no offer to what was sent.
\<close>

lemma step_keeps:
  assumes "role (user st) \<noteq> ''farmer''" "timers st = []"
  shows "user (step st e) = user st \<and> timers (step st e) = [] \<and>
         filter is_offer (sent (step st e)) = filter is_offer (sent st)"
proof (cases e)
  case (Mount media)
  with assms show ?thesis by (simp add: initializeCall_keeps)
next
  case SocketOpen
  with assms show ?thesis
    by (simp add: onopen_keeps set_readyState_keeps split: option.splits)
next
  case (SocketMessage data rtc)
  with assms show ?thesis by (simp add: onmessage_keeps split: option.splits)
next
  case SocketError
  with assms show ?thesis by (simp add: onerror_def split: option.splits)
next
  case SocketClose
  with assms show ?thesis by (simp add: onclose_def set_readyState_keeps split: option.splits)
next
  case (TimerFired rtc)
  with assms show ?thesis by simp
next
  case (IceEvent cand)
  with assms show ?thesis by (simp add: onicecandidate_keeps)
next
  case (TrackEvent has_stream)
  with assms show ?thesis by (simp add: ontrack_def)
next
  case (ConnectionStateChange cs)
  with assms show ?thesis by (simp add: onconnectionstatechange_def)
next
  case ClickMute
  with assms show ?thesis by (simp add: toggle_keeps)
next
  case ClickVideo
  with assms show ?thesis by (simp add: toggle_keeps)
next
  case ClickEndCall
  with assms show ?thesis by (simp add: endCall_keeps)
next
  case Unmount
  with assms show ?thesis by (simp add: cleanup_keeps)
qed

lemma run_keeps:
  "role (user st) \<noteq> ''farmer'' \<Longrightarrow> timers st = [] \<Longrightarrow>
     filter is_offer (sent (run st evs)) = filter is_offer (sent st)"
proof (induction evs arbitrary: st)
  case Nil
  then show ?case by (simp add: run_def)
next
  case (Cons e evs)
  from step_keeps [OF Cons.prems, of e]
  have a: "role (user (step st e)) \<noteq> ''farmer''" and b: "timers (step st e) = []"
    and c: "filter is_offer (sent (step st e)) = filter is_offer (sent st)"
    using Cons.prems by simp_all
  from Cons.IH [OF a b] c show ?case by (simp add: run_def)
qed

lemmas page_defs =
  run_def initial_def initializeCall_def initPeerConnection_def connectSignaling_def
  wsUrl_def role_def set_readyState_def onopen_def onmessage_def onclose_def send_def
  createOffer_def handleRemoteHangup_def cleanup_def localStream_in_def navigate_back_def
  endCall_def stop_def ws_close_def Let_def

subsection \<open>Offers\<close>

text \<open>
  C1. In every run of the page from its initial state, whatever the events and
  whatever the browser answers, a message of type offer is handed to the signaling
  socket only if the role of the page is farmer: a page with any other role sends
  no offer, neither when the socket opens nor when a ready message arrives.
\<close>

theorem only_farmer_sends_offer:
  "m \<in> set (sent (run (initial u sid ws_url ti) evs)) \<Longrightarrow> signal_type m = ''offer'' \<Longrightarrow>
     role u = ''farmer''"
proof (rule ccontr)
  assume m: "m \<in> set (sent (run (initial u sid ws_url ti) evs))"
    and t: "signal_type m = ''offer''" and r: "role u \<noteq> ''farmer''"
  have "filter is_offer (sent (run (initial u sid ws_url ti) evs)) = []"
    using run_keeps [of "initial u sid ws_url ti" evs] r by (simp add: initial_def)
  with m t show False by (auto simp: filter_empty_conv is_offer_def)
qed

theorem only_farmer_sends_offer_witness:
  "Offer ''sdp'' \<in> set (sent (run
      (initial (Some \<lparr>user_id = ''f1'', user_role = ''farmer''\<rparr>) (Some ''s1'') ''ws://h'' True)
      [Mount (Some []), SocketOpen,
       SocketMessage \<lparr>msg_type = ''ready'', msg_sdp = [], msg_candidate = []\<rparr> (Some ''sdp'')]))
   \<and> signal_type (Offer ''sdp'') = ''offer''
   \<and> role (Some \<lparr>user_id = ''f1'', user_role = ''farmer''\<rparr>) = ''farmer''"
proof -
  have h1: "Offer ''sdp'' \<in> set (sent (run
      (initial (Some \<lparr>user_id = ''f1'', user_role = ''farmer''\<rparr>) (Some ''s1'') ''ws://h'' True)
      [Mount (Some []), SocketOpen,
       SocketMessage \<lparr>msg_type = ''ready'', msg_sdp = [], msg_candidate = []\<rparr> (Some ''sdp'')]))"
    by (simp add: page_defs)
  have h2: "signal_type (Offer ''sdp'') = ''offer''" by simp
  from only_farmer_sends_offer [OF h1 h2] h1 h2 show ?thesis by simp
qed

text \<open>The same run with a vet sends the ready message and nothing else.\<close>

lemma vet_run_example:
  "sent (run
      (initial (Some \<lparr>user_id = ''v1'', user_role = ''vet''\<rparr>) (Some ''s1'') ''ws://h'' True)
      [Mount (Some []), SocketOpen,
       SocketMessage \<lparr>msg_type = ''ready'', msg_sdp = [], msg_candidate = []\<rparr> (Some ''sdp'')])
   = [Ready ''vet'']"
  by (simp add: page_defs)

subsection \<open>Hangup\<close>

text \<open>
  The End Call button: the hangup message goes out first, if the socket is OPEN,
  then every local track is stopped, the peer connection and the socket are closed
  and the page is left.
\<close>

lemma endCall_teardown:
  "sent (endCall st) =
     (if \<exists>ws. signalingSocket st = Some ws \<and> readyState ws = OPEN
      then sent st @ [Hangup] else sent st)
   \<and> localStream (endCall st) = map_option (map stop) (localStream st)
   \<and> peerConnection (endCall st) = map_option (\<lambda>pc. pc\<lparr>pc_closed := True\<rparr>) (peerConnection st)
   \<and> signalingSocket (endCall st) = map_option ws_close (signalingSocket st)
   \<and> navigated (endCall st) = Suc (navigated st)"
  by (auto simp: endCall_def navigate_back_def cleanup_def localStream_in_def Let_def send_def
           split: option.splits sum.splits)

text \<open>
  A hangup message from the peer: the handler closes the peer connection and the
  socket and leaves the page when \<^verbatim>\<open>toast.info\<close> exists, and does nothing when it
  does not; in neither case does it touch a local track.
\<close>

lemma handleRemoteHangup_teardown:
  "localStream (handleRemoteHangup st) = localStream st
   \<and> peerConnection (handleRemoteHangup st) =
       (if toast_info st then map_option (\<lambda>pc. pc\<lparr>pc_closed := True\<rparr>) (peerConnection st)
        else peerConnection st)
   \<and> signalingSocket (handleRemoteHangup st) =
       (if toast_info st then map_option ws_close (signalingSocket st) else signalingSocket st)
   \<and> navigated (handleRemoteHangup st) =
       (if toast_info st then Suc (navigated st) else navigated st)"
  by (auto simp: handleRemoteHangup_def navigate_back_def cleanup_def localStream_in_def Let_def
           split: option.splits)

text \<open>
  C2. A vet's page has obtained a live audio and a live video track and its socket
  has opened; the peer's hangup message arrives and the page is unmounted. Both
  tracks are still live afterwards (\<^verbatim>\<open>ended\<close> is false), whether or not
  \<^verbatim>\<open>toast.info\<close> exists.
\<close>

theorem remote_hangup_leaves_tracks_live:
  "localStream
     (run (initial (Some \<lparr>user_id = ''v1'', user_role = ''vet''\<rparr>) (Some ''s1'') ''ws://h'' ti)
        [Mount (Some [\<lparr>kind = Audio, enabled = True, ended = False\<rparr>,
                      \<lparr>kind = Video, enabled = True, ended = False\<rparr>]),
         SocketOpen,
         SocketMessage \<lparr>msg_type = ''hangup'', msg_sdp = [], msg_candidate = []\<rparr> None,
         Unmount])
   = Some [\<lparr>kind = Audio, enabled = True, ended = False\<rparr>,
           \<lparr>kind = Video, enabled = True, ended = False\<rparr>]"
  by (cases ti) (simp_all add: page_defs)

text \<open>The same page, left with the End Call button instead: both tracks are stopped.\<close>

lemma local_hangup_stops_tracks:
  "localStream
     (run (initial (Some \<lparr>user_id = ''v1'', user_role = ''vet''\<rparr>) (Some ''s1'') ''ws://h'' ti)
        [Mount (Some [\<lparr>kind = Audio, enabled = True, ended = False\<rparr>,
                      \<lparr>kind = Video, enabled = True, ended = False\<rparr>]),
         SocketOpen,
         ClickEndCall,
         Unmount])
   = Some [\<lparr>kind = Audio, enabled = True, ended = True\<rparr>,
           \<lparr>kind = Video, enabled = True, ended = True\<rparr>]"
  by (simp add: page_defs)

subsection \<open>Peer disconnected\<close>

text \<open>
  C3. A peer-disconnected message sets the call status to "Peer disconnected" and
  changes nothing else: the local tracks, the peer connection and the signaling
  socket are as before, nothing is sent and the page is not left.
\<close>

theorem peer_disconnected_keeps_call:
  "msg_type data = ''peer-disconnected'' \<Longrightarrow>
     onmessage data rtc st = st\<lparr>callStatus := ''Peer disconnected''\<rparr> \<and>
     localStream (onmessage data rtc st) = localStream st \<and>
     peerConnection (onmessage data rtc st) = peerConnection st \<and>
     signalingSocket (onmessage data rtc st) = signalingSocket st \<and>
     sent (onmessage data rtc st) = sent st \<and>
     navigated (onmessage data rtc st) = navigated st"
  by (simp add: onmessage_def)

theorem peer_disconnected_keeps_call_witness:
  "callStatus (onmessage \<lparr>msg_type = ''peer-disconnected'', msg_sdp = [], msg_candidate = []\<rparr> None
      (run (initial (Some \<lparr>user_id = ''v1'', user_role = ''vet''\<rparr>) (Some ''s1'') ''ws://h'' True)
         [Mount (Some [\<lparr>kind = Audio, enabled = True, ended = False\<rparr>]), SocketOpen]))
     = ''Peer disconnected''
   \<and> signalingSocket (onmessage \<lparr>msg_type = ''peer-disconnected'', msg_sdp = [], msg_candidate = []\<rparr> None
      (run (initial (Some \<lparr>user_id = ''v1'', user_role = ''vet''\<rparr>) (Some ''s1'') ''ws://h'' True)
         [Mount (Some [\<lparr>kind = Audio, enabled = True, ended = False\<rparr>]), SocketOpen]))
     = Some \<lparr>url = ''ws://h/ws/signaling/s1/v1/vet'', readyState = OPEN\<rparr>
   \<and> localStream (onmessage \<lparr>msg_type = ''peer-disconnected'', msg_sdp = [], msg_candidate = []\<rparr> None
      (run (initial (Some \<lparr>user_id = ''v1'', user_role = ''vet''\<rparr>) (Some ''s1'') ''ws://h'' True)
         [Mount (Some [\<lparr>kind = Audio, enabled = True, ended = False\<rparr>]), SocketOpen]))
     = Some [\<lparr>kind = Audio, enabled = True, ended = False\<rparr>]"
proof -
  have h: "msg_type \<lparr>msg_type = ''peer-disconnected'', msg_sdp = [], msg_candidate = []\<rparr>
             = ''peer-disconnected''" by simp
  show ?thesis
    using peer_disconnected_keeps_call [OF h, of None
      "run (initial (Some \<lparr>user_id = ''v1'', user_role = ''vet''\<rparr>) (Some ''s1'') ''ws://h'' True)
         [Mount (Some [\<lparr>kind = Audio, enabled = True, ended = False\<rparr>]), SocketOpen]"]
    by (simp add: page_defs)
qed

subsection \<open>The signaling role\<close>

text \<open>
  C8. The role the page connects with is farmer exactly when the user's role is
  farmer and vet for every other user (admin included, and a null user); the URL of
  the signaling socket ends in that role, so it ends in one of the two values.
\<close>

theorem role_two_valued:
  "role u = (if \<exists>usr. u = Some usr \<and> user_role usr = ''farmer'' then ''farmer'' else ''vet'')
   \<and> (user st = Some usr \<longrightarrow>
        wsUrl st = Inr (WS_URL st @ ''/ws/signaling/''
               @ (case sessionId st of None \<Rightarrow> ''null'' | Some s \<Rightarrow> s)
               @ ''/'' @ user_id usr @ ''/''
               @ (if user_role usr = ''farmer'' then ''farmer'' else ''vet'')))"
  by (auto simp: role_def wsUrl_def split: option.splits)

theorem role_two_valued_witness:
  "role (Some \<lparr>user_id = ''a1'', user_role = ''admin''\<rparr>) = ''vet''
   \<and> wsUrl (initial (Some \<lparr>user_id = ''a1'', user_role = ''admin''\<rparr>) (Some ''s1'') ''ws://h'' True)
       = Inr ''ws://h/ws/signaling/s1/a1/vet''"
proof -
  have h: "user (initial (Some \<lparr>user_id = ''a1'', user_role = ''admin''\<rparr>) (Some ''s1'') ''ws://h'' True)
             = Some \<lparr>user_id = ''a1'', user_role = ''admin''\<rparr>"
    by (simp add: initial_def)
  show ?thesis
    using h role_two_valued [of "Some \<lparr>user_id = ''a1'', user_role = ''admin''\<rparr>"
      "initial (Some \<lparr>user_id = ''a1'', user_role = ''admin''\<rparr>) (Some ''s1'') ''ws://h'' True"
      "\<lparr>user_id = ''a1'', user_role = ''admin''\<rparr>"]
    by (simp add: initial_def)
qed

subsection \<open>ICE candidates\<close>

text \<open>
  C9. The ICE handler hands an ice-candidate message to the socket if and only if
  the event carries a candidate and the socket exists and is OPEN; in every other
  case it leaves the state as it is, so nothing is sent.
\<close>

theorem ice_candidate_sent_iff:
  "(\<exists>c. candidate = Some c \<and>
         onicecandidate candidate st = st\<lparr>sent := sent st @ [IceCandidate c]\<rparr>)
     = (candidate \<noteq> None \<and> (\<exists>ws. signalingSocket st = Some ws \<and> readyState ws = OPEN))
   \<and> (onicecandidate candidate st \<noteq> st)
     = (candidate \<noteq> None \<and> (\<exists>ws. signalingSocket st = Some ws \<and> readyState ws = OPEN))"
proof -
  have neq: "\<And>c. st\<lparr>sent := sent st @ [IceCandidate c]\<rparr> \<noteq> st"
  proof
    fix c assume "st\<lparr>sent := sent st @ [IceCandidate c]\<rparr> = st"
    then have "sent (st\<lparr>sent := sent st @ [IceCandidate c]\<rparr>) = sent st" by simp
    then show False by simp
  qed
  show ?thesis
    by (cases candidate; cases "signalingSocket st")
       (auto simp: onicecandidate_def send_def neq neq [THEN not_sym])
qed

theorem ice_candidate_sent_iff_witness:
  "onicecandidate (Some ''c1'')
     (run (initial (Some \<lparr>user_id = ''v1'', user_role = ''vet''\<rparr>) (Some ''s1'') ''ws://h'' True)
        [Mount (Some [])])
   = run (initial (Some \<lparr>user_id = ''v1'', user_role = ''vet''\<rparr>) (Some ''s1'') ''ws://h'' True)
        [Mount (Some [])]"
  using ice_candidate_sent_iff [of "Some ''c1''"
     "run (initial (Some \<lparr>user_id = ''v1'', user_role = ''vet''\<rparr>) (Some ''s1'') ''ws://h'' True)
        [Mount (Some [])]"]
  by (simp add: page_defs)

subsection \<open>Mute and video toggles\<close>

lemma toggle_toggle: "toggle k (toggle k t) = t"
  by (simp add: toggle_def)

lemma toggle_comp: "toggle k \<circ> toggle k = id"
  by (rule ext) (simp add: toggle_toggle)

text \<open>
  C10. Toggling mute twice gives back the state it started from, with every track's
  \<^verbatim>\<open>enabled\<close> flag and \<^verbatim>\<open>isMuted\<close> as before; the same holds for the video toggle
  and \<^verbatim>\<open>isVideoOff\<close>; without a local stream either toggle does nothing.
\<close>

theorem toggles_self_inverse:
  "toggleMute (toggleMute st) = st \<and> toggleVideo (toggleVideo st) = st \<and>
   (localStream st = None \<longrightarrow> toggleMute st = st \<and> toggleVideo st = st)"
  by (cases "localStream st") (simp_all add: toggleMute_def toggleVideo_def toggle_comp)

theorem toggles_self_inverse_witness:
  "toggleMute (initial None None ''ws://h'' True) = initial None None ''ws://h'' True
   \<and> toggleVideo (initial None None ''ws://h'' True) = initial None None ''ws://h'' True"
proof -
  have h: "localStream (initial None None ''ws://h'' True) = None" by (simp add: initial_def)
  show ?thesis using h toggles_self_inverse [of "initial None None ''ws://h'' True"] by simp
qed

text \<open>One toggle does change the page that has a stream.\<close>

lemma toggleMute_example:
  "toggleMute (run (initial None None ''ws://h'' True)
      [Mount (Some [\<lparr>kind = Audio, enabled = True, ended = False\<rparr>,
                    \<lparr>kind = Video, enabled = True, ended = False\<rparr>])])
   = (run (initial None None ''ws://h'' True)
      [Mount (Some [\<lparr>kind = Audio, enabled = True, ended = False\<rparr>,
                    \<lparr>kind = Video, enabled = True, ended = False\<rparr>])])
     \<lparr>localStream := Some [\<lparr>kind = Audio, enabled = False, ended = False\<rparr>,
                           \<lparr>kind = Video, enabled = True, ended = False\<rparr>],
      isMuted := True\<rparr>"
  by (simp add: page_defs toggleMute_def toggle_def)

section \<open>Properties of the dashboards\<close>

subsection \<open>Reconnecting\<close>

lemma vd_step_scheduled:
  "vd_scheduled (vd_step st e) = vd_scheduled st \<or>
   vd_scheduled (vd_step st e) = vd_scheduled st @ [3000]"
  by (cases e) (auto simp: connectWebSocket_def vd_onclose_def split: list.splits)

lemma vd_run_scheduled:
  "\<exists>n. vd_scheduled (vd_run st evs) = vd_scheduled st @ replicate n 3000"
proof (induction evs arbitrary: st)
  case Nil
  show ?case by (simp add: vd_run_def)
next
  case (Cons e evs)
  from Cons.IH [of "vd_step st e"] obtain n where
    n: "vd_scheduled (vd_run (vd_step st e) evs) = vd_scheduled (vd_step st e) @ replicate n 3000"
    by blast
  from vd_step_scheduled [of st e] show ?case
  proof
    assume "vd_scheduled (vd_step st e) = vd_scheduled st"
    with n show ?thesis by (auto simp: vd_run_def)
  next
    assume "vd_scheduled (vd_step st e) = vd_scheduled st @ [3000]"
    with n have "vd_scheduled (vd_run st (e # evs)) = vd_scheduled st @ replicate (Suc n) 3000"
      by (simp add: vd_run_def)
    then show ?thesis by blast
  qed
qed

text \<open>
  C4, as the code has it. The notification socket of the vet dashboard reconnects
  after every close with the same delay of 3000 ms: whatever happens, the delays
  scheduled are all 3000. When the signaling socket of the call page closes,
  nothing is scheduled, nothing is sent and no new socket is made.
\<close>

theorem reconnect_fixed_delay:
  "(\<exists>n. vd_scheduled (vd_run st evs) = vd_scheduled st @ replicate n 3000)
   \<and> vd_timers (vd_onclose st) = vd_timers st @ [3000]
   \<and> timers (step vst SocketClose) = timers vst
   \<and> sent (step vst SocketClose) = sent vst
   \<and> map_option url (signalingSocket (step vst SocketClose)) = map_option url (signalingSocket vst)"
  by (simp add: vd_run_scheduled vd_onclose_def onclose_def set_readyState_def
        option.map_comp comp_def split: option.splits)

text \<open>
  C4 with growing delays does not hold of the code: after two closes of the notification socket the
  second delay is not larger than the first, and a closed signaling socket leaves no
  timer pending.
\<close>

theorem reconnect_backoff_counterexample:
  "\<not> increasing_delays
        (vd_scheduled (vd_run (vd_initial \<lparr>user_id = ''v1'', user_role = ''vet''\<rparr> ''ws://h'')
           [VdMount, VdClose 0, VdTimerFired, VdClose 1]))
   \<and> timers (run (initial (Some \<lparr>user_id = ''v1'', user_role = ''vet''\<rparr>) (Some ''s1'') ''ws://h'' True)
        [Mount (Some []), SocketOpen, SocketClose]) = []"
  by (simp add: increasing_delays_def vd_run_def vd_initial_def connectWebSocket_def
        vd_onclose_def page_defs)

lemma reconnect_delays_example:
  "vd_scheduled (vd_run (vd_initial \<lparr>user_id = ''v1'', user_role = ''vet''\<rparr> ''ws://h'')
           [VdMount, VdClose 0, VdTimerFired, VdClose 1]) = [3000, 3000]"
  by (simp add: vd_run_def vd_initial_def connectWebSocket_def vd_onclose_def)

subsection \<open>Creating and joining a session\<close>

text \<open>
  C5. The request that creates a session is a POST to /signaling/session/create
  whose body names the report and the farmer and carries a null \<^verbatim>\<open>vet_id\<close>; the
  vet's identity is in the body of the PATCH that joins the session, sent from the
  vet dashboard. Without a user neither request is issued.
\<close>

theorem create_request_has_null_vet:
  "map (\<lambda>r. (http_method r, path r, field r ''report_id'', field r ''farmer_id'', field r ''vet_id''))
       (handleConnectVet (Some usr) reportId)
     = [(POST, ''/signaling/session/create'',
         Some (JString reportId), Some (JString (user_id usr)), Some JNull)]
   \<and> handleConnectVet None reportId = []
   \<and> map (\<lambda>r. (http_method r, path r, field r ''vet_id'')) (joinCall (Some usr) session_id reportId)
     = [(PATCH, ''/signaling/session/'' @ session_id @ ''/join'', Some (JString (user_id usr)))]
   \<and> joinCall None session_id reportId = []
   \<and> map (\<lambda>r. field r ''vet_id'') loadActiveSessions = [None]"
  by (simp add: handleConnectVet_def joinCall_def loadActiveSessions_def field_def)

section \<open>Properties of the session core\<close>

lemma write_to_store [simp]:
  "store (write_to ch n c) = store c" "next_id (write_to ch n c) = next_id c"
  by (simp_all add: write_to_def split: option.splits)

lemma detach_store [simp]:
  "store (detach sid r c) = store c" "next_id (detach sid r c) = next_id c"
  by (simp_all add: detach_def)

lemma attach_store [simp]:
  "store (attach sid pid r ch c) = store c" "next_id (attach sid pid r ch c) = next_id c"
  by (simp_all add: attach_def Let_def split: option.splits)

lemma end_session_store:
  "store (snd (end_session sid now c)) =
     (case store c sid of
        None \<Rightarrow> store c
      | Some s \<Rightarrow> if cs_state s = Ended then store c
                  else (store c)(sid := Some (s\<lparr>cs_state := Ended, cs_endedAt := Some now\<rparr>)))"
  "next_id (snd (end_session sid now c)) = next_id c"
  by (simp_all add: end_session_def Let_def split: option.splits)

lemma end_session_mono:
  assumes "store c k = Some s"
  shows "\<exists>s'. store (snd (end_session sid now c)) k = Some s' \<and>
              rank (cs_state s) \<le> rank (cs_state s')"
  using assms by (cases "cs_state s") (auto simp: end_session_store split: option.splits)

lemma end_session_fresh: "fresh_ids c \<Longrightarrow> fresh_ids (snd (end_session sid now c))"
  by (auto simp: fresh_ids_def end_session_store split: option.splits if_splits)

lemma core_step_fresh: "fresh_ids c \<Longrightarrow> fresh_ids (core_step c e)"
proof (cases e)
  case (EvCreate now report initiator)
  assume "fresh_ids c"
  with EvCreate show ?thesis by (auto simp: fresh_ids_def create_def Let_def less_Suc_eq)
next
  case (EvJoin sid counterpart)
  assume "fresh_ids c"
  with EvJoin show ?thesis
    by (auto simp: fresh_ids_def join_def Let_def split: option.splits if_splits)
next
  case (EvConnect sid pid r ch)
  assume "fresh_ids c"
  with EvConnect show ?thesis
    by (auto simp: fresh_ids_def onConnect_def Let_def split: option.splits if_splits)
next
  case (EvDisconnect sid r)
  assume "fresh_ids c"
  with EvDisconnect show ?thesis by (simp add: fresh_ids_def onDisconnect_def Let_def)
next
  case (EvRelay sid r m now)
  assume f: "fresh_ids c"
  then have "fresh_ids (write_to (peerOf sid r c) (Forward m) c)" by (simp add: fresh_ids_def)
  with f EvRelay show ?thesis
    by (auto simp: relay_def Let_def end_session_fresh split: option.splits)
next
  case (EvEnd sid now)
  assume "fresh_ids c"
  with EvEnd show ?thesis by (simp add: end_session_fresh)
next
  case (EvAbandonTimeout sid now)
  assume "fresh_ids c"
  with EvAbandonTimeout show ?thesis by (simp add: abandon_timeout_def end_session_fresh)
next
  case (EvGraceExpired sid r now)
  assume "fresh_ids c"
  with EvGraceExpired show ?thesis by (simp add: grace_expired_def end_session_fresh)
qed

text \<open>One operation keeps every stored session and does not lower its state.\<close>

lemma core_step_mono:
  assumes f: "fresh_ids c" and s: "store c k = Some s"
  shows "\<exists>s'. store (core_step c e) k = Some s' \<and> rank (cs_state s) \<le> rank (cs_state s')"
proof (cases e)
  case (EvCreate now report initiator)
  from f s have "k \<noteq> next_id c" by (auto simp: fresh_ids_def)
  with s EvCreate show ?thesis by (simp add: create_def Let_def)
next
  case (EvJoin sid counterpart)
  with s show ?thesis by (auto simp: join_def Let_def split: option.splits)
next
  case (EvConnect sid pid r ch)
  with s show ?thesis
    by (cases "cs_state s") (auto simp: onConnect_def Let_def split: option.splits)
next
  case (EvDisconnect sid r)
  with s show ?thesis by (simp add: onDisconnect_def Let_def)
next
  case (EvRelay sid r m now)
  have "store (write_to (peerOf sid r c) (Forward m) c) k = Some s" using s by simp
  from end_session_mono [OF this, of sid now] s EvRelay show ?thesis
    by (auto simp: relay_def Let_def split: option.splits)
next
  case (EvEnd sid now)
  with end_session_mono [OF s, of sid now] show ?thesis by simp
next
  case (EvAbandonTimeout sid now)
  with end_session_mono [OF s, of sid now] s show ?thesis by (simp add: abandon_timeout_def)
next
  case (EvGraceExpired sid r now)
  with end_session_mono [OF s, of sid now] s show ?thesis by (simp add: grace_expired_def)
qed

lemma core_run_fresh: "fresh_ids c \<Longrightarrow> fresh_ids (core_run c evs)"
  by (induction evs arbitrary: c) (simp_all add: core_run_def core_step_fresh)

lemma core_run_mono:
  "fresh_ids c \<Longrightarrow> store c k = Some s \<Longrightarrow>
     \<exists>s'. store (core_run c evs) k = Some s' \<and> rank (cs_state s) \<le> rank (cs_state s')"
proof (induction evs arbitrary: c s)
  case Nil
  then show ?case by (simp add: core_run_def)
next
  case (Cons e evs)
  from core_step_mono [OF Cons.prems, of e] obtain s1 where
    s1: "store (core_step c e) k = Some s1" "rank (cs_state s) \<le> rank (cs_state s1)" by blast
  from Cons.IH [OF core_step_fresh [OF Cons.prems(1)] s1(1)] obtain s' where
    "store (core_run (core_step c e) evs) k = Some s'" "rank (cs_state s1) \<le> rank (cs_state s')"
    by blast
  with s1 show ?case by (auto simp: core_run_def)
qed

lemma core_run_append: "core_run c (xs @ ys) = core_run (core_run c xs) ys"
  by (simp add: core_run_def)

lemmas core_defs =
  core_run_def empty_core_def create_def join_def onConnect_def onDisconnect_def relay_def
  end_session_def abandon_timeout_def grace_expired_def attach_def detach_def peerOf_def
  bothPresent_def write_to_def Let_def

text \<open>
  C6. Take any sequence of operations from the empty core and any session it has
  stored; after any further operations the session is still stored and its state is
  the same or a later one in the order Created, Active, Ended. In particular a
  session that is Ended stays Ended.
\<close>

theorem session_state_monotonic:
  assumes "store (core_run empty_core evs) sid = Some s"
  shows "\<exists>s'. store (core_run empty_core (evs @ later)) sid = Some s' \<and>
              rank (cs_state s) \<le> rank (cs_state s') \<and>
              (cs_state s = Ended \<longrightarrow> cs_state s' = Ended)"
proof -
  have "fresh_ids empty_core" by (simp add: fresh_ids_def empty_core_def)
  then have "fresh_ids (core_run empty_core evs)" by (rule core_run_fresh)
  from core_run_mono [OF this assms, of later] obtain s' where
    s': "store (core_run empty_core (evs @ later)) sid = Some s'"
        "rank (cs_state s) \<le> rank (cs_state s')"
    by (auto simp: core_run_append)
  moreover have "cs_state s = Ended \<longrightarrow> cs_state s' = Ended"
    using s'(2) by (cases "cs_state s'") auto
  ultimately show ?thesis by blast
qed

theorem session_state_monotonic_witness:
  "\<exists>s'. store (core_run empty_core
            ([EvCreate 10 ''r1'' ''farmerA'', EvJoin 0 ''vetB'',
              EvConnect 0 ''farmerA'' Initiator 100, EvConnect 0 ''vetB'' Counterpart 101,
              EvRelay 0 Counterpart MHangup 20]
             @ [EvConnect 0 ''farmerA'' Initiator 102, EvJoin 0 ''vetC'',
                EvCreate 30 ''r1'' ''farmerA'', EvEnd 0 40])) 0 = Some s'
        \<and> cs_state s' = Ended"
proof -
  have h: "store (core_run empty_core
            [EvCreate 10 ''r1'' ''farmerA'', EvJoin 0 ''vetB'',
             EvConnect 0 ''farmerA'' Initiator 100, EvConnect 0 ''vetB'' Counterpart 101,
             EvRelay 0 Counterpart MHangup 20]) 0
           = Some \<lparr> cs_id = 0, cs_reportId = ''r1'', cs_initiatorId = ''farmerA'',
                    cs_counterpartId = Some ''vetB'', cs_state = Ended,
                    cs_createdAt = 10, cs_endedAt = Some 20 \<rparr>"
    by (simp add: core_defs)
  from session_state_monotonic [OF h,
      of "[EvConnect 0 ''farmerA'' Initiator 102, EvJoin 0 ''vetC'',
           EvCreate 30 ''r1'' ''farmerA'', EvEnd 0 40]"]
  show ?thesis by auto
qed

text \<open>The states a session goes through in that run: Created, Active, Ended.\<close>

lemma session_states_example:
  "map_option cs_state (store (core_run empty_core [EvCreate 10 ''r1'' ''farmerA'']) 0)
     = Some Created
   \<and> map_option cs_state (store (core_run empty_core
        [EvCreate 10 ''r1'' ''farmerA'', EvJoin 0 ''vetB'',
         EvConnect 0 ''farmerA'' Initiator 100, EvConnect 0 ''vetB'' Counterpart 101]) 0)
     = Some Active
   \<and> map_option cs_state (store (core_run empty_core
        [EvCreate 10 ''r1'' ''farmerA'', EvJoin 0 ''vetB'',
         EvConnect 0 ''farmerA'' Initiator 100, EvConnect 0 ''vetB'' Counterpart 101,
         EvRelay 0 Counterpart MHangup 20]) 0)
     = Some Ended"
  by (simp add: core_defs)

text \<open>
  C7. Ending a session twice gives the result and the core that ending it once
  gives, whatever the two times; and on a session that is already Ended, \<^verbatim>\<open>end\<close>
  returns the stored record as it is, without error, and leaves the core as it was.
\<close>

theorem end_idempotent:
  "end_session sid t2 (snd (end_session sid t1 c)) = end_session sid t1 c \<and>
   (store c sid = Some s \<and> cs_state s = Ended \<longrightarrow> end_session sid t c = (Inr s, c))"
  by (auto simp: end_session_def Let_def split: option.splits)

theorem end_idempotent_witness:
  "fst (end_session 0 9 (core_run empty_core [EvCreate 1 ''r1'' ''farmerA'', EvEnd 0 5]))
     = Inr \<lparr> cs_id = 0, cs_reportId = ''r1'', cs_initiatorId = ''farmerA'',
              cs_counterpartId = None, cs_state = Ended,
              cs_createdAt = 1, cs_endedAt = Some 5 \<rparr>"
proof -
  have h: "store (core_run empty_core [EvCreate 1 ''r1'' ''farmerA'', EvEnd 0 5]) 0
             = Some \<lparr> cs_id = 0, cs_reportId = ''r1'', cs_initiatorId = ''farmerA'',
                      cs_counterpartId = None, cs_state = Ended,
                      cs_createdAt = 1, cs_endedAt = Some 5 \<rparr>
           \<and> cs_state \<lparr> cs_id = 0, cs_reportId = ''r1'', cs_initiatorId = ''farmerA'',
                      cs_counterpartId = None, cs_state = Ended,
                      cs_createdAt = 1, cs_endedAt = Some 5 \<rparr> = Ended"
    by (simp add: core_defs)
  from end_idempotent [of 0 9 5 "core_run empty_core [EvCreate 1 ''r1'' ''farmerA'', EvEnd 0 5]"
        "\<lparr> cs_id = 0, cs_reportId = ''r1'', cs_initiatorId = ''farmerA'',
           cs_counterpartId = None, cs_state = Ended,
           cs_createdAt = 1, cs_endedAt = Some 5 \<rparr>" 9] h
  show ?thesis by simp
qed

end
